theory Spec2Isabelle
  imports
    Complex_Main
    "HOL-Library.Char_ord"
    "HOL-Library.List_Lexorder"
    "HOL-Library.Product_Lexorder"
    "HOL-Library.Sublist"
begin

section \<open>JavaScript values\<close>

text \<open>
  The chart logic of the repository lives in two TypeScript files:
  \<^verbatim>\<open>src/utils/ChartSuggestionEngine.ts\<close> (column classifier, field analyzer, suggestion
  rules) and \<^verbatim>\<open>src/MagicCharts.tsx\<close> (variant compatibility table, column search,
  aggregation and binning). Both work on rows of type \<^verbatim>\<open>any\<close>, so the embedding starts
  with the values a cell can hold.

  A JavaScript number is a double. Finite doubles are modelled by the rational they
  denote and arithmetic on them is exact: rounding and overflow are not modelled, and
  the two zeros are one value. \<open>NaN\<close> and the two infinities are explicit, because the
  code tests for them.
\<close>

datatype jsnum = Fin rat | PInf | NInf | NaN

text \<open>
  A \<^verbatim>\<open>Date\<close> object carries the identity of the object (objects are compared by
  reference) and its time value (\<open>NaN\<close> for an invalid date). With that, HOL equality on
  \<open>jsval\<close> is the SameValueZero comparison that \<^verbatim>\<open>Set\<close> uses.
\<close>

datatype jsval =
    JUndefined
  | JNull
  | JBool bool
  | JNum jsnum
  | JStr string
  | JDate nat jsnum

datatype error = TypeError

text \<open>
  What the language runtime computes on strings is a parameter of the model: the
  number a string converts to (\<^verbatim>\<open>Number(s)\<close>), the time value of \<^verbatim>\<open>new Date(s)\<close>,
  which is also \<^verbatim>\<open>Date.parse(s)\<close> and is NaN when the string is not read as a date
  (implementation-defined outside the ISO format), the text of a number or a date, and
  \<^verbatim>\<open>toLowerCase\<close>. No runtime is fixed anywhere below: every theorem holds for every
  runtime.
\<close>

record runtime =
  StringToNumber :: "string \<Rightarrow> jsnum"
  DateParse :: "string \<Rightarrow> jsnum"
  NumberToString :: "jsnum \<Rightarrow> string"
  DateToString :: "jsnum \<Rightarrow> string"
  toLowerCase :: "string \<Rightarrow> string"

text \<open>A parsed row is an object; reading a property it does not have gives \<^verbatim>\<open>undefined\<close>.\<close>

type_synonym row = "(string \<times> jsval) list"

definition get_prop :: "row \<Rightarrow> string \<Rightarrow> jsval" where
  "get_prop r k = (case map_of r k of None \<Rightarrow> JUndefined | Some v \<Rightarrow> v)"

text \<open>\<^verbatim>\<open>v != null\<close>: false for \<^verbatim>\<open>null\<close> and \<^verbatim>\<open>undefined\<close> only.\<close>

definition not_nullish :: "jsval \<Rightarrow> bool" where
  "not_nullish v = (v \<noteq> JNull \<and> v \<noteq> JUndefined)"

text \<open>\<^verbatim>\<open>typeof v === 'number' && !isNaN(v)\<close>\<close>

fun is_number_not_NaN :: "jsval \<Rightarrow> bool" where
  "is_number_not_NaN (JNum n) = (n \<noteq> NaN)"
| "is_number_not_NaN _ = False"

text \<open>\<^verbatim>\<open>Number.isInteger\<close> on a number, and on any value.\<close>

fun isInteger_num :: "jsnum \<Rightarrow> bool" where
  "isInteger_num (Fin q) = (of_int \<lfloor>q\<rfloor> = q)"
| "isInteger_num _ = False"

fun isInteger :: "jsval \<Rightarrow> bool" where
  "isInteger (JNum n) = isInteger_num n"
| "isInteger _ = False"

fun instanceof_Date :: "jsval \<Rightarrow> bool" where
  "instanceof_Date (JDate i t) = True"
| "instanceof_Date _ = False"

text \<open>
  \<^verbatim>\<open>new Set(xs)\<close> read back as an array: the distinct elements in the order of their
  first occurrence.
\<close>

definition Set_add :: "'a \<Rightarrow> 'a list \<Rightarrow> 'a list" where
  "Set_add x acc = (if x \<in> set acc then acc else acc @ [x])"

definition new_Set :: "'a list \<Rightarrow> 'a list" where
  "new_Set xs = fold Set_add xs []"

text \<open>\<^verbatim>\<open>xs.slice(0, n)\<close> is \<open>take n xs\<close>; \<^verbatim>\<open>s.includes(k)\<close> is \<open>sublist k s\<close>.\<close>

text \<open>
  The method call \<^verbatim>\<open>value.toString()\<close> throws a TypeError on \<^verbatim>\<open>null\<close> and
  \<^verbatim>\<open>undefined\<close>.
\<close>

fun toString_method :: "runtime \<Rightarrow> jsval \<Rightarrow> error + string" where
  "toString_method rt JUndefined = Inl TypeError"
| "toString_method rt JNull = Inl TypeError"
| "toString_method rt (JBool b) = Inr (if b then ''true'' else ''false'')"
| "toString_method rt (JNum n) = Inr (NumberToString rt n)"
| "toString_method rt (JStr s) = Inr s"
| "toString_method rt (JDate i t) = Inr (DateToString rt t)"

section \<open>Column classifier and field analyzer (ChartSuggestionEngine.ts)\<close>

datatype data_type = DIMENSION | MEASURE | DATE

datatype cardinality_level = LOW | MEDIUM | HIGH

record field =
  name :: string
  dtype :: data_type
  cardinality :: nat
  cardinalityLevel :: cardinality_level
  uniqueValues :: "jsval list"
  hasNulls :: bool
  sampleValues :: "jsval list"

text \<open>\<^verbatim>\<open>isDateString\<close>: a string whose \<^verbatim>\<open>new Date(value).getTime()\<close> is not NaN.\<close>

fun isDateString :: "runtime \<Rightarrow> jsval \<Rightarrow> bool" where
  "isDateString rt (JStr s) = (DateParse rt s \<noteq> NaN)"
| "isDateString rt _ = False"

text \<open>
  \<^verbatim>\<open>determineDataType\<close>. The threshold \<^verbatim>\<open>values.length * 0.8\<close> is written with the
  rational 8/10: the double nearest to 0.8 exceeds it by a factor \<open>1 + 2^-54\<close>, so for
  lengths below \<open>2^53\<close> the product rounds to the exact value wherever that is an
  integer, and a count compares with it as with the exact product. The \<^verbatim>\<open>stringValues\<close>
  array of the source is computed and never read.
\<close>

definition determineDataType :: "runtime \<Rightarrow> jsval list \<Rightarrow> data_type" where
  "determineDataType rt values =
    (let numericValues = filter is_number_not_NaN values;
         dateValues = filter (\<lambda>v. instanceof_Date v \<or> isDateString rt v) values
     in if (of_nat (length dateValues) :: rat) > of_nat (length values) * (8 / 10) then DATE
        else if (of_nat (length numericValues) :: rat) > of_nat (length values) * (8 / 10) then
          (let uniqueCount = length (new_Set numericValues)
           in if uniqueCount \<le> 20 \<and> list_all isInteger numericValues then DIMENSION
              else MEASURE)
        else DIMENSION)"

text \<open>
  \<^verbatim>\<open>CARDINALITY_THRESHOLDS = { LOW: 20, MEDIUM: 100, HIGH: 1000 }\<close>; the third is
  never read.
\<close>

definition THRESHOLD_LOW :: nat where "THRESHOLD_LOW = 20"
definition THRESHOLD_MEDIUM :: nat where "THRESHOLD_MEDIUM = 100"

definition getCardinalityLevel :: "nat \<Rightarrow> cardinality_level" where
  "getCardinalityLevel count =
    (if count \<le> THRESHOLD_LOW then LOW
     else if count \<le> THRESHOLD_MEDIUM then MEDIUM
     else HIGH)"

definition analyzeField :: "runtime \<Rightarrow> row list \<Rightarrow> string \<Rightarrow> field" where
  "analyzeField rt data fieldName =
    (let values = filter not_nullish (map (\<lambda>row. get_prop row fieldName) data);
         uniqueValues = new_Set values
     in \<lparr> name = fieldName,
          dtype = determineDataType rt values,
          cardinality = length uniqueValues,
          cardinalityLevel = getCardinalityLevel (length uniqueValues),
          uniqueValues = take 10 uniqueValues,
          hasNulls = (length values < length data),
          sampleValues = take 5 values \<rparr>)"

section \<open>Suggestion rules (ChartSuggestionEngine.ts)\<close>

record suggestion =
  type :: string
  priority :: int
  reason :: string

record field_sets =
  dimensions :: "field list"
  measures :: "field list"
  dates :: "field list"

text \<open>
  \<^verbatim>\<open>suggestCharts\<close> returns either \<^verbatim>\<open>{ suggestions, reason }\<close> or
  \<^verbatim>\<open>{ suggestions, fieldAnalysis }\<close>: the key that is absent is \<open>None\<close>. The key
  \<^verbatim>\<open>reason\<close> of the result is \<open>result_reason\<close> here.
\<close>

record result =
  suggestions :: "suggestion list"
  result_reason :: "string option"
  fieldAnalysis :: "field_sets option"

definition partOfWholeKeywords :: "string list" where
  "partOfWholeKeywords = [''percentage'', ''percent'', ''share'', ''proportion'', ''ratio'']"

definition measuresRepresentPartsOfWhole :: "runtime \<Rightarrow> field list \<Rightarrow> bool" where
  "measuresRepresentPartsOfWhole rt ms =
    list_ex (\<lambda>measure.
      list_ex (\<lambda>keyword. sublist keyword (toLowerCase rt (name measure))) partOfWholeKeywords) ms"

definition geoKeywords :: "string list" where
  "geoKeywords = [''country'', ''state'', ''city'', ''region'', ''location'', ''lat'', ''lng'',
                  ''longitude'', ''latitude'']"

definition isGeographicField :: "runtime \<Rightarrow> string \<Rightarrow> bool" where
  "isGeographicField rt fieldName =
    list_ex (\<lambda>keyword. sublist keyword (toLowerCase rt fieldName)) geoKeywords"

definition geoValues :: "string list" where
  "geoValues = [''usa'', ''uk'', ''canada'', ''australia'', ''germany'', ''france'', ''japan'',
                ''china'']"

text \<open>
  \<^verbatim>\<open>values.some(value => geoValues.includes(value.toString().toLowerCase()))\<close>: the scan
  stops at the first hit, and \<^verbatim>\<open>toString\<close> throws on a null value met before it.
\<close>

fun containsGeographicValues :: "runtime \<Rightarrow> jsval list \<Rightarrow> error + bool" where
  "containsGeographicValues rt [] = Inr False"
| "containsGeographicValues rt (v # vs) =
    (case toString_method rt v of
       Inl e \<Rightarrow> Inl e
     | Inr s \<Rightarrow> if toLowerCase rt s \<in> set geoValues then Inr True
               else containsGeographicValues rt vs)"

text \<open>
  \<^verbatim>\<open>dimensions.filter(d => isGeographicField(d.name) || containsGeographicValues(d.uniqueValues))\<close>
\<close>

fun geoFields :: "runtime \<Rightarrow> field list \<Rightarrow> error + field list" where
  "geoFields rt [] = Inr []"
| "geoFields rt (d # ds) =
    (case (if isGeographicField rt (name d) then Inr True
           else containsGeographicValues rt (uniqueValues d)) of
       Inl e \<Rightarrow> Inl e
     | Inr b \<Rightarrow>
        (case geoFields rt ds of
           Inl e \<Rightarrow> Inl e
         | Inr gs \<Rightarrow> Inr (if b then d # gs else gs)))"

text \<open>
  The rules of \<^verbatim>\<open>applyTableauRules\<close>, one definition for each block of the source, in
  its order. Each gives the suggestions its block pushes; the arguments are the three
  counts and, where the block reads them, the dimensions.
\<close>

definition rule1 :: "nat \<Rightarrow> nat \<Rightarrow> nat \<Rightarrow> suggestion list" where
  "rule1 dimCount measureCount dateCount =
    (if measureCount = 1 \<and> dimCount = 0 \<and> dateCount = 0 then
       [\<lparr>type = ''histogram'', priority = 1,
         reason = ''Single continuous measure - show distribution''\<rparr>]
     else [])"

definition rule2 :: "field list \<Rightarrow> nat \<Rightarrow> nat \<Rightarrow> nat \<Rightarrow> suggestion list" where
  "rule2 dims dimCount measureCount dateCount =
    (if dimCount = 1 \<and> measureCount = 0 \<and> dateCount = 0 then
       (let dim = hd dims in
        if cardinalityLevel dim = LOW then
          [\<lparr>type = ''bar'', priority = 1,
            reason = ''Single categorical dimension - show frequency''\<rparr>]
        else [])
     else [])"

definition rule3 :: "field list \<Rightarrow> nat \<Rightarrow> nat \<Rightarrow> nat \<Rightarrow> suggestion list" where
  "rule3 dims dimCount measureCount dateCount =
    (if dimCount = 1 \<and> measureCount = 1 \<and> dateCount = 0 then
       (let dim = hd dims in
        if cardinalityLevel dim = LOW then
          [\<lparr>type = ''bar'', priority = 1,
            reason = ''Categorical dimension with measure - compare values across categories''\<rparr>]
          @ (if cardinality dim \<le> 7 then
               [\<lparr>type = ''pie'', priority = 2,
                 reason = ''Few categories - can show parts of whole''\<rparr>]
             else [])
        else [])
     else [])"

definition rule4 :: "nat \<Rightarrow> nat \<Rightarrow> nat \<Rightarrow> suggestion list" where
  "rule4 dimCount measureCount dateCount =
    (if dateCount = 1 \<and> measureCount = 1 \<and> dimCount = 0 then
       [\<lparr>type = ''line'', priority = 1,
         reason = ''Time series data - show trend over time''\<rparr>,
        \<lparr>type = ''bar'', priority = 2,
         reason = ''Time periods - compare values across time periods''\<rparr>]
     else [])"

definition rule5 :: "nat \<Rightarrow> nat \<Rightarrow> nat \<Rightarrow> suggestion list" where
  "rule5 dimCount measureCount dateCount =
    (if measureCount = 2 \<and> dimCount = 0 \<and> dateCount = 0 then
       [\<lparr>type = ''scatter'', priority = 1,
         reason = ''Two continuous measures - show correlation''\<rparr>]
     else [])"

definition rule6 :: "field list \<Rightarrow> nat \<Rightarrow> nat \<Rightarrow> nat \<Rightarrow> suggestion list" where
  "rule6 dims dimCount measureCount dateCount =
    (if measureCount \<ge> 2 \<and> dimCount = 1 \<and> dateCount = 0 then
       (let dim = hd dims in
        if cardinalityLevel dim = LOW then
          [\<lparr>type = ''grouped_bar'', priority = 1,
            reason = ''Multiple measures with categorical dimension - compare measures across categories''\<rparr>,
           \<lparr>type = ''line'', priority = 2,
            reason = ''Multiple measures over categories - show trends for each measure''\<rparr>]
        else [])
     else [])"

definition rule7 :: "nat \<Rightarrow> nat \<Rightarrow> nat \<Rightarrow> suggestion list" where
  "rule7 dimCount measureCount dateCount =
    (if measureCount \<ge> 2 \<and> dimCount = 0 \<and> dateCount = 1 then
       [\<lparr>type = ''line'', priority = 1,
         reason = ''Multiple measures over time - show trends for each measure''\<rparr>,
        \<lparr>type = ''stacked_area'', priority = 2,
         reason = ''Multiple measures over time - show cumulative contribution''\<rparr>]
     else [])"

definition rule8 :: "field list \<Rightarrow> nat \<Rightarrow> nat \<Rightarrow> nat \<Rightarrow> suggestion list" where
  "rule8 dims dimCount measureCount dateCount =
    (if dimCount = 2 \<and> measureCount = 1 \<and> dateCount = 0 then
       (let lowCardDims = filter (\<lambda>d. cardinalityLevel d = LOW) dims in
        if length lowCardDims = 2 then
          [\<lparr>type = ''grouped_bar'', priority = 1,
            reason = ''Two categorical dimensions with measure - group by one dimension''\<rparr>,
           \<lparr>type = ''stacked_bar'', priority = 2,
            reason = ''Two categorical dimensions with measure - stack by secondary dimension''\<rparr>,
           \<lparr>type = ''heatmap'', priority = 3,
            reason = ''Two categorical dimensions with measure - show intensity across categories''\<rparr>]
        else [])
     else [])"

definition rule9 :: "field list \<Rightarrow> nat \<Rightarrow> nat \<Rightarrow> nat \<Rightarrow> suggestion list" where
  "rule9 dims dimCount measureCount dateCount =
    (if dateCount = 1 \<and> dimCount = 1 \<and> measureCount = 1 then
       (let dim = hd dims in
        if cardinalityLevel dim = LOW then
          [\<lparr>type = ''line'', priority = 1,
            reason = ''Time series by category - show trends for each group''\<rparr>,
           \<lparr>type = ''stacked_area'', priority = 2,
            reason = ''Stacked area - show contribution over time''\<rparr>,
           \<lparr>type = ''grouped_bar'', priority = 3,
            reason = ''Grouped bars over time - compare categories within time periods''\<rparr>]
        else [])
     else [])"

definition rule10 :: "field list \<Rightarrow> nat \<Rightarrow> nat \<Rightarrow> nat \<Rightarrow> suggestion list" where
  "rule10 dims dimCount measureCount dateCount =
    (if dateCount = 1 \<and> dimCount = 1 \<and> measureCount \<ge> 2 then
       (let dim = hd dims in
        if cardinalityLevel dim = LOW then
          [\<lparr>type = ''line'', priority = 1,
            reason = ''Multiple time series by category - show trends for each measure and group''\<rparr>,
           \<lparr>type = ''stacked_area'', priority = 2,
            reason = ''Stacked area by category - show measure contributions over time''\<rparr>]
        else [])
     else [])"

definition rule11 :: "field list \<Rightarrow> nat \<Rightarrow> nat \<Rightarrow> nat \<Rightarrow> suggestion list" where
  "rule11 dims dimCount measureCount dateCount =
    (if dimCount = 2 \<and> measureCount \<ge> 2 \<and> dateCount = 0 then
       (let lowCardDims = filter (\<lambda>d. cardinalityLevel d = LOW) dims in
        if length lowCardDims = 2 then
          [\<lparr>type = ''grouped_bar'', priority = 1,
            reason = ''Multiple measures with two dimensions - group and compare measures''\<rparr>,
           \<lparr>type = ''heatmap'', priority = 2,
            reason = ''Multiple measures - create separate heatmaps for each measure''\<rparr>]
        else [])
     else [])"

definition rule12 :: "field list \<Rightarrow> nat \<Rightarrow> nat \<Rightarrow> nat \<Rightarrow> suggestion list" where
  "rule12 dims dimCount measureCount dateCount =
    (if measureCount \<ge> 3 \<and> dimCount \<le> 1 \<and> dateCount \<le> 1 then
       (if dateCount = 1 then
          [\<lparr>type = ''line'', priority = 1,
            reason = ''Multiple measures over time - parallel time series''\<rparr>,
           \<lparr>type = ''stacked_area'', priority = 2,
            reason = ''Multiple measures over time - show cumulative values''\<rparr>]
        else [])
       @ (if dimCount = 1 then
            (let dim = hd dims in
             if cardinalityLevel dim = LOW then
               [\<lparr>type = ''radar'', priority = 1,
                 reason = ''Multiple measures by category - radar chart shows multidimensional comparison''\<rparr>,
                \<lparr>type = ''grouped_bar'', priority = 2,
                 reason = ''Multiple measures by category - grouped bars for detailed comparison''\<rparr>]
             else [])
          else [])
       @ (if dimCount = 0 \<and> dateCount = 0 then
            [\<lparr>type = ''parallel_coordinates'', priority = 1,
              reason = ''Multiple measures only - parallel coordinates show relationships''\<rparr>]
          else [])
     else [])"

definition rule13 :: "field list \<Rightarrow> nat \<Rightarrow> nat \<Rightarrow> nat \<Rightarrow> suggestion list" where
  "rule13 dims dimCount measureCount dateCount =
    (if measureCount = 2 \<and> dimCount = 1 \<and> dateCount = 0 then
       (let dim = hd dims in
        if cardinalityLevel dim = LOW then
          [\<lparr>type = ''scatter'', priority = 1,
            reason = ''Two measures with categorical dimension - scatter plot colored by category''\<rparr>,
           \<lparr>type = ''grouped_bar'', priority = 2,
            reason = ''Two measures with categorical dimension - grouped bars to compare both measures''\<rparr>]
        else [])
     else [])"

text \<open>
  Rule 14: the array \<^verbatim>\<open>stackableScenarios\<close> of (condition, type) pairs, and the
  \<^verbatim>\<open>forEach\<close> that pushes one suggestion at priority 2 for each scenario whose
  condition holds.
\<close>

definition stackableScenarios ::
  "runtime \<Rightarrow> field list \<Rightarrow> nat \<Rightarrow> nat \<Rightarrow> nat \<Rightarrow> (bool \<times> string) list" where
  "stackableScenarios rt ms dimCount measureCount dateCount =
    [(dateCount = 1 \<and> dimCount = 1 \<and> measureCount = 1, ''stacked_area''),
     (measureCount \<ge> 2 \<and> measuresRepresentPartsOfWhole rt ms, ''stacked_bar''),
     (dimCount = 2 \<and> measureCount = 1, ''stacked_bar'')]"

definition rule14 :: "(bool \<times> string) list \<Rightarrow> suggestion list" where
  "rule14 scenarios =
    concat (map (\<lambda>(condition, t).
      if condition then
        [\<lparr>type = t, priority = 2,
          reason = ''Stackable data structure - '' @ t @ '' shows composition''\<rparr>]
      else []) scenarios)"

text \<open>The \<^verbatim>\<open>dimensions.forEach\<close> that follows: one treemap for each HIGH dimension.\<close>

definition rule_high_cardinality :: "field list \<Rightarrow> nat \<Rightarrow> suggestion list" where
  "rule_high_cardinality dims measureCount =
    concat (map (\<lambda>dim.
      if cardinalityLevel dim = HIGH then
        (if measureCount \<ge> 1 then
           [\<lparr>type = ''treemap'', priority = 3,
             reason = ''High cardinality dimension - treemap shows hierarchy''\<rparr>]
         else [])
      else []) dims)"

definition rule_large_dataset :: "nat \<Rightarrow> nat \<Rightarrow> suggestion list" where
  "rule_large_dataset recordCount measureCount =
    (if recordCount > 10000 then
       (if measureCount \<ge> 2 then
          [\<lparr>type = ''density'', priority = 2,
            reason = ''Large dataset - density plot shows patterns better than individual points''\<rparr>]
        else [])
     else [])"

definition rule_geographic :: "field list \<Rightarrow> nat \<Rightarrow> suggestion list" where
  "rule_geographic gs measureCount =
    (if length gs > 0 \<and> measureCount \<ge> 1 then
       [\<lparr>type = ''map'', priority = 1,
         reason = ''Geographic dimension detected - map visualization''\<rparr>]
     else [])"

definition fallback :: "suggestion list \<Rightarrow> suggestion list" where
  "fallback pushed =
    (if length pushed = 0 then
       [\<lparr>type = ''table'', priority = 1,
         reason = ''Complex data structure - tabular view recommended''\<rparr>]
     else [])"

text \<open>
  The suggestions pushed before the geographic rule, in the order of the pushes, and
  all the pushes, given the geographic fields found.
\<close>

definition pushed_before_geo ::
  "runtime \<Rightarrow> field list \<Rightarrow> field list \<Rightarrow> field list \<Rightarrow> nat \<Rightarrow> suggestion list" where
  "pushed_before_geo rt dims ms ds recordCount =
    (let dimCount = length dims; measureCount = length ms; dateCount = length ds
     in rule1 dimCount measureCount dateCount
        @ rule2 dims dimCount measureCount dateCount
        @ rule3 dims dimCount measureCount dateCount
        @ rule4 dimCount measureCount dateCount
        @ rule5 dimCount measureCount dateCount
        @ rule6 dims dimCount measureCount dateCount
        @ rule7 dimCount measureCount dateCount
        @ rule8 dims dimCount measureCount dateCount
        @ rule9 dims dimCount measureCount dateCount
        @ rule10 dims dimCount measureCount dateCount
        @ rule11 dims dimCount measureCount dateCount
        @ rule12 dims dimCount measureCount dateCount
        @ rule13 dims dimCount measureCount dateCount
        @ rule14 (stackableScenarios rt ms dimCount measureCount dateCount)
        @ rule_high_cardinality dims measureCount
        @ rule_large_dataset recordCount measureCount)"

definition pushed_suggestions ::
  "runtime \<Rightarrow> field list \<Rightarrow> field list \<Rightarrow> field list \<Rightarrow> nat \<Rightarrow> field list
    \<Rightarrow> suggestion list" where
  "pushed_suggestions rt dims ms ds recordCount gs =
    (let pushed = pushed_before_geo rt dims ms ds recordCount @ rule_geographic gs (length ms)
     in pushed @ fallback pushed)"

text \<open>
  \<^verbatim>\<open>applyTableauRules\<close>. The final \<^verbatim>\<open>suggestions.sort((a, b) => a.priority - b.priority)\<close>
  is a stable sort (ECMAScript 2019) on the priority: \<open>sort_key\<close>.
\<close>

definition applyTableauRules ::
  "runtime \<Rightarrow> field list \<Rightarrow> field list \<Rightarrow> field list \<Rightarrow> nat \<Rightarrow> error + result" where
  "applyTableauRules rt dims ms ds recordCount =
    (case geoFields rt dims of
       Inl e \<Rightarrow> Inl e
     | Inr gs \<Rightarrow>
        Inr \<lparr> suggestions = sort_key priority (pushed_suggestions rt dims ms ds recordCount gs),
              result_reason = None,
              fieldAnalysis = Some \<lparr>dimensions = dims, measures = ms, dates = ds\<rparr> \<rparr>)"

text \<open>
  \<^verbatim>\<open>suggestCharts\<close>. An absent \<^verbatim>\<open>selectedFields\<close> (\<^verbatim>\<open>null\<close> or \<^verbatim>\<open>undefined\<close>) is \<open>None\<close>.
\<close>

definition suggestCharts :: "runtime \<Rightarrow> row list \<Rightarrow> string list option \<Rightarrow> error + result" where
  "suggestCharts rt data selectedFields =
    (case selectedFields of
       None \<Rightarrow> Inr \<lparr>suggestions = [], result_reason = Some ''No fields selected'', fieldAnalysis = None\<rparr>
     | Some selected \<Rightarrow>
        if length selected = 0 then
          Inr \<lparr>suggestions = [], result_reason = Some ''No fields selected'', fieldAnalysis = None\<rparr>
        else
          (let analysis = map (\<lambda>f. analyzeField rt data f) selected;
               dims = filter (\<lambda>f. dtype f = DIMENSION) analysis;
               ms = filter (\<lambda>f. dtype f = MEASURE) analysis;
               ds = filter (\<lambda>f. dtype f = DATE) analysis
           in applyTableauRules rt dims ms ds (length data)))"

section \<open>Conversions and arithmetic of the language\<close>

text \<open>\<^verbatim>\<open>Number(v)\<close>\<close>

fun ToNumber :: "runtime \<Rightarrow> jsval \<Rightarrow> jsnum" where
  "ToNumber rt JUndefined = NaN"
| "ToNumber rt JNull = Fin 0"
| "ToNumber rt (JBool b) = Fin (if b then 1 else 0)"
| "ToNumber rt (JNum n) = n"
| "ToNumber rt (JStr s) = StringToNumber rt s"
| "ToNumber rt (JDate i t) = t"





text \<open>
  Arithmetic on numbers, after IEEE 754 with the finite values exact. The sign of a
  zero is not represented, so a finite nonzero dividend over zero takes the sign of the
  dividend; the functions below divide by zero only in \<open>0 / 0\<close>.
\<close>

fun jneg :: "jsnum \<Rightarrow> jsnum" where
  "jneg (Fin a) = Fin (- a)"
| "jneg PInf = NInf"
| "jneg NInf = PInf"
| "jneg NaN = NaN"

fun jadd :: "jsnum \<Rightarrow> jsnum \<Rightarrow> jsnum" where
  "jadd NaN b = NaN"
| "jadd a NaN = NaN"
| "jadd (Fin a) (Fin b) = Fin (a + b)"
| "jadd PInf NInf = NaN"
| "jadd NInf PInf = NaN"
| "jadd PInf b = PInf"
| "jadd a PInf = PInf"
| "jadd NInf b = NInf"
| "jadd a NInf = NInf"

definition jsub :: "jsnum \<Rightarrow> jsnum \<Rightarrow> jsnum" where
  "jsub a b = jadd a (jneg b)"


fun jdiv :: "jsnum \<Rightarrow> jsnum \<Rightarrow> jsnum" where
  "jdiv NaN b = NaN"
| "jdiv a NaN = NaN"
| "jdiv (Fin a) (Fin b) =
    (if b = 0 then (if a = 0 then NaN else if a > 0 then PInf else NInf) else Fin (a / b))"
| "jdiv (Fin a) PInf = Fin 0"
| "jdiv (Fin a) NInf = Fin 0"
| "jdiv PInf (Fin b) = (if b \<ge> 0 then PInf else NInf)"
| "jdiv NInf (Fin b) = (if b \<ge> 0 then NInf else PInf)"
| "jdiv PInf PInf = NaN"
| "jdiv PInf NInf = NaN"
| "jdiv NInf PInf = NaN"
| "jdiv NInf NInf = NaN"

text \<open>\<^verbatim>\<open>a < b\<close> on numbers: false when either is NaN.\<close>

fun jless :: "jsnum \<Rightarrow> jsnum \<Rightarrow> bool" where
  "jless NaN b = False"
| "jless a NaN = False"
| "jless (Fin a) (Fin b) = (a < b)"
| "jless NInf NInf = False"
| "jless NInf b = True"
| "jless a NInf = False"
| "jless PInf b = False"
| "jless a PInf = True"

text \<open>\<^verbatim>\<open>Math.floor\<close>, \<^verbatim>\<open>Math.min(...xs)\<close> and \<^verbatim>\<open>Math.max(...xs)\<close>.\<close>

fun jfloor :: "jsnum \<Rightarrow> jsnum" where
  "jfloor (Fin a) = Fin (of_int \<lfloor>a\<rfloor>)"
| "jfloor a = a"

definition jmin :: "jsnum \<Rightarrow> jsnum \<Rightarrow> jsnum" where
  "jmin a b = (if a = NaN \<or> b = NaN then NaN else if jless b a then b else a)"

definition jmax :: "jsnum \<Rightarrow> jsnum \<Rightarrow> jsnum" where
  "jmax a b = (if a = NaN \<or> b = NaN then NaN else if jless a b then b else a)"

definition Math_min :: "jsnum list \<Rightarrow> jsnum" where
  "Math_min xs = fold jmin xs PInf"

definition Math_max :: "jsnum list \<Rightarrow> jsnum" where
  "Math_max xs = fold jmax xs NInf"


section \<open>The classifier as the specification words it\<close>

text \<open>
  Section 4.1 of the specification counts the values that are parseable as a finite
  number, and decides between DIMENSION and MEASURE on the numbers so parsed. These two
  definitions follow those words: a value is parseable as a finite number when it is a
  finite number or a string that \<^verbatim>\<open>Number\<close> reads as one.
\<close>

fun is_finite :: "jsnum \<Rightarrow> bool" where
  "is_finite (Fin q) = True"
| "is_finite _ = False"

fun spec_parseable_as_finite_number :: "runtime \<Rightarrow> jsval \<Rightarrow> bool" where
  "spec_parseable_as_finite_number rt (JNum n) = is_finite n"
| "spec_parseable_as_finite_number rt (JStr s) = is_finite (StringToNumber rt s)"
| "spec_parseable_as_finite_number rt _ = False"

definition spec_numeric_type :: "runtime \<Rightarrow> jsval list \<Rightarrow> data_type" where
  "spec_numeric_type rt values =
    (let numbers = map (ToNumber rt) (filter (spec_parseable_as_finite_number rt) values)
     in if length (new_Set numbers) \<le> 20 \<and> list_all isInteger_num numbers then DIMENSION
        else MEASURE)"

section \<open>Column types (MagicCharts.tsx)\<close>


section \<open>Chart variants and their compatibility (MagicCharts.tsx)\<close>

text \<open>
  A variant's predicate takes the selected columns, the map from column name to type
  name, and the rows, which are optional (\<open>None\<close> when the argument is left out).
\<close>

record variant =
  key :: string
  label :: string
  isCompatible :: "runtime \<Rightarrow> string list \<Rightarrow> (string \<rightharpoonup> string) \<Rightarrow> row list option \<Rightarrow> bool"

text \<open>\<^verbatim>\<open>isNumericOrdinal\<close>: integers only, with 2 to 10 distinct values.\<close>

definition isNumericOrdinal :: "runtime \<Rightarrow> jsval list \<Rightarrow> bool" where
  "isNumericOrdinal rt values =
    (let nonEmpty = filter (\<lambda>v. v \<noteq> JUndefined \<and> v \<noteq> JNull \<and> v \<noteq> JStr []) values
     in if length nonEmpty = 0 then False
        else if \<not> list_all (\<lambda>v. isInteger_num (ToNumber rt v)) nonEmpty then False
        else (let unique = new_Set (map (ToNumber rt) nonEmpty)
              in length unique \<ge> 2 \<and> length unique \<le> 10))"

definition Bar_count ::
  "runtime \<Rightarrow> string list \<Rightarrow> (string \<rightharpoonup> string) \<Rightarrow> row list option \<Rightarrow> bool" where
  "Bar_count rt cols types rows =
    (if length cols \<noteq> 1 then False
     else (let t = types (cols ! 0)
           in if t \<noteq> Some ''categorical'' \<and> t \<noteq> Some ''date'' then False
              else (case rows of
                      None \<Rightarrow> True
                    | Some rs \<Rightarrow>
                       length (new_Set (map (\<lambda>r. get_prop r (cols ! 0)) rs)) \<le> 20)))"

definition Bar_count_horizontal ::
  "runtime \<Rightarrow> string list \<Rightarrow> (string \<rightharpoonup> string) \<Rightarrow> row list option \<Rightarrow> bool" where
  "Bar_count_horizontal rt cols types rows =
    (if length cols \<noteq> 1 then False
     else (let t = types (cols ! 0)
           in if t \<noteq> Some ''categorical'' then False
              else (case rows of
                      None \<Rightarrow> True
                    | Some rs \<Rightarrow>
                       length (new_Set (map (\<lambda>r. get_prop r (cols ! 0)) rs)) \<le> 20)))"

definition Bar_single ::
  "runtime \<Rightarrow> string list \<Rightarrow> (string \<rightharpoonup> string) \<Rightarrow> row list option \<Rightarrow> bool" where
  "Bar_single rt cols types rows =
    (length cols = 2 \<and>
     ((types (cols ! 0) = Some ''categorical'' \<and> types (cols ! 1) = Some ''numeric'') \<or>
      (types (cols ! 1) = Some ''categorical'' \<and> types (cols ! 0) = Some ''numeric'') \<or>
      (types (cols ! 0) = Some ''date'' \<and> types (cols ! 1) = Some ''numeric'') \<or>
      (types (cols ! 1) = Some ''date'' \<and> types (cols ! 0) = Some ''numeric'')))"

definition Bar_single_horizontal ::
  "runtime \<Rightarrow> string list \<Rightarrow> (string \<rightharpoonup> string) \<Rightarrow> row list option \<Rightarrow> bool" where
  "Bar_single_horizontal rt cols types rows =
    (length cols = 2 \<and>
     ((types (cols ! 0) = Some ''categorical'' \<and> types (cols ! 1) = Some ''numeric'') \<or>
      (types (cols ! 1) = Some ''categorical'' \<and> types (cols ! 0) = Some ''numeric'')))"

text \<open>
  Multi Colour Bar and its horizontal twin have the same body. The index \<open>-1\<close> of the
  source is \<open>None\<close>.
\<close>

definition Bar_multi ::
  "runtime \<Rightarrow> string list \<Rightarrow> (string \<rightharpoonup> string) \<Rightarrow> row list option \<Rightarrow> bool" where
  "Bar_multi rt cols types rows =
    (if length cols \<noteq> 2 then False
     else (let catIdx = (if types (cols ! 0) = Some ''categorical'' then Some (0::nat)
                         else if types (cols ! 1) = Some ''categorical'' then Some 1
                         else None);
               numIdx = (if catIdx = Some 0 then Some (1::nat)
                         else if catIdx = Some 1 then Some 0
                         else None)
           in case (catIdx, numIdx) of
                (Some c, Some n) \<Rightarrow>
                  if types (cols ! c) \<noteq> Some ''categorical'' \<or> types (cols ! n) \<noteq> Some ''numeric''
                  then False
                  else (case rows of
                          None \<Rightarrow> False
                        | Some rs \<Rightarrow>
                           length (new_Set (map (\<lambda>r. get_prop r (cols ! c)) rs)) \<le> 7)
              | _ \<Rightarrow> False))"

text \<open>Grouped, Stacked and Proportional Stacked Bar have the same body.\<close>

definition Bar_grouped ::
  "runtime \<Rightarrow> string list \<Rightarrow> (string \<rightharpoonup> string) \<Rightarrow> row list option \<Rightarrow> bool" where
  "Bar_grouped rt cols types rows =
    ((length cols = 3 \<and>
      ((types (cols ! 0) = Some ''date'' \<and> types (cols ! 1) = Some ''categorical''
          \<and> types (cols ! 2) = Some ''numeric'') \<or>
       (types (cols ! 0) = Some ''categorical'' \<and> types (cols ! 1) = Some ''categorical''
          \<and> types (cols ! 2) = Some ''numeric'')))
     \<or> (length cols \<ge> 3
         \<and> (types (cols ! 0) = Some ''categorical'' \<or> types (cols ! 0) = Some ''date'')
         \<and> list_all (\<lambda>c. types c = Some ''numeric'') (drop 1 cols)))"

text \<open>Simple Line and Area Line have the same body; Multi-series Line asks for 3 columns.\<close>

definition Line_simple ::
  "runtime \<Rightarrow> string list \<Rightarrow> (string \<rightharpoonup> string) \<Rightarrow> row list option \<Rightarrow> bool" where
  "Line_simple rt cols types rows =
    (if length cols < 2 then False
     else (let xType = types (cols ! 0)
           in if xType = Some ''date'' then True
              else if xType = Some ''numeric''
                      \<and> (case rows of
                            None \<Rightarrow> False
                          | Some rs \<Rightarrow> isNumericOrdinal rt (map (\<lambda>r. get_prop r (cols ! 0)) rs))
                   then True
              else False))"

definition Line_multi ::
  "runtime \<Rightarrow> string list \<Rightarrow> (string \<rightharpoonup> string) \<Rightarrow> row list option \<Rightarrow> bool" where
  "Line_multi rt cols types rows =
    (if length cols < 3 then False
     else (let xType = types (cols ! 0)
           in if xType = Some ''date'' then True
              else if xType = Some ''numeric''
                      \<and> (case rows of
                            None \<Rightarrow> False
                          | Some rs \<Rightarrow> isNumericOrdinal rt (map (\<lambda>r. get_prop r (cols ! 0)) rs))
                   then True
              else False))"

text \<open>Standard Pie and Donut have the same body.\<close>

definition Pie_standard ::
  "runtime \<Rightarrow> string list \<Rightarrow> (string \<rightharpoonup> string) \<Rightarrow> row list option \<Rightarrow> bool" where
  "Pie_standard rt cols types rows =
    ((length cols = 2 \<and>
      ((types (cols ! 0) = Some ''categorical'' \<and> types (cols ! 1) = Some ''numeric'') \<or>
       (types (cols ! 1) = Some ''categorical'' \<and> types (cols ! 0) = Some ''numeric'')))
     \<or> (length cols = 1 \<and> types (cols ! 0) = Some ''categorical''))"

definition Pie_count ::
  "runtime \<Rightarrow> string list \<Rightarrow> (string \<rightharpoonup> string) \<Rightarrow> row list option \<Rightarrow> bool" where
  "Pie_count rt cols types rows = (length cols = 1 \<and> types (cols ! 0) = Some ''categorical'')"

definition Scatter_simple ::
  "runtime \<Rightarrow> string list \<Rightarrow> (string \<rightharpoonup> string) \<Rightarrow> row list option \<Rightarrow> bool" where
  "Scatter_simple rt cols types rows =
    (if length cols \<noteq> 2 then False
     else (let t0 = types (cols ! 0); t1 = types (cols ! 1)
           in if t0 = Some ''numeric'' \<and> t1 = Some ''numeric'' then True
              else if (t0 = Some ''categorical'' \<and> t1 = Some ''numeric'')
                      \<or> (t0 = Some ''numeric'' \<and> t1 = Some ''categorical'') then True
              else False))"

definition Scatter_bubble ::
  "runtime \<Rightarrow> string list \<Rightarrow> (string \<rightharpoonup> string) \<Rightarrow> row list option \<Rightarrow> bool" where
  "Scatter_bubble rt cols types rows =
    (length cols = 3 \<and> list_all (\<lambda>c. types c = Some ''numeric'') cols)"

definition Histogram_standard ::
  "runtime \<Rightarrow> string list \<Rightarrow> (string \<rightharpoonup> string) \<Rightarrow> row list option \<Rightarrow> bool" where
  "Histogram_standard rt cols types rows = (length cols = 1 \<and> types (cols ! 0) = Some ''numeric'')"

text \<open>\<^verbatim>\<open>CHART_VARIANTS\<close>, with the families and the variants in the order of the source.\<close>

definition CHART_VARIANTS :: "(string \<times> variant list) list" where
  "CHART_VARIANTS =
    [(''Bar'',
      [\<lparr>key = ''count'', label = ''Count Bar'', isCompatible = Bar_count\<rparr>,
       \<lparr>key = ''count_horizontal'', label = ''Count Horizontal Bar'',
        isCompatible = Bar_count_horizontal\<rparr>,
       \<lparr>key = ''single'', label = ''Single Colour Bar'', isCompatible = Bar_single\<rparr>,
       \<lparr>key = ''single_horizontal'', label = ''Single Colour Horizontal Bar'',
        isCompatible = Bar_single_horizontal\<rparr>,
       \<lparr>key = ''multi'', label = ''Multi Colour Bar'', isCompatible = Bar_multi\<rparr>,
       \<lparr>key = ''multi_horizontal'', label = ''Multi Colour Horizontal Bar'',
        isCompatible = Bar_multi\<rparr>,
       \<lparr>key = ''grouped'', label = ''Grouped Bar'', isCompatible = Bar_grouped\<rparr>,
       \<lparr>key = ''stacked'', label = ''Stacked Bar'', isCompatible = Bar_grouped\<rparr>,
       \<lparr>key = ''proportional'', label = ''Proportional Stacked Bar'',
        isCompatible = Bar_grouped\<rparr>]),
     (''Line'',
      [\<lparr>key = ''simple'', label = ''Simple Line'', isCompatible = Line_simple\<rparr>,
       \<lparr>key = ''multi'', label = ''Multi-series Line'', isCompatible = Line_multi\<rparr>,
       \<lparr>key = ''area'', label = ''Area Line'', isCompatible = Line_simple\<rparr>]),
     (''Pie'',
      [\<lparr>key = ''standard'', label = ''Standard Pie'', isCompatible = Pie_standard\<rparr>,
       \<lparr>key = ''donut'', label = ''Donut'', isCompatible = Pie_standard\<rparr>,
       \<lparr>key = ''count'', label = ''Count Pie'', isCompatible = Pie_count\<rparr>]),
     (''Scatter'',
      [\<lparr>key = ''simple'', label = ''Simple Scatter'', isCompatible = Scatter_simple\<rparr>,
       \<lparr>key = ''bubble'', label = ''Bubble'', isCompatible = Scatter_bubble\<rparr>]),
     (''Histogram'',
      [\<lparr>key = ''standard'', label = ''Standard Histogram'',
        isCompatible = Histogram_standard\<rparr>])]"

text \<open>
  \<^verbatim>\<open>CHART_VARIANTS[type]\<close> and the predicate of the variant with a given key. Keys that
  an object inherits from its prototype are not modelled.
\<close>

definition variants_of :: "string \<Rightarrow> variant list option" where
  "variants_of chartType = map_of CHART_VARIANTS chartType"

definition variant_isCompatible ::
  "string \<Rightarrow> string \<Rightarrow> runtime \<Rightarrow> string list \<Rightarrow> (string \<rightharpoonup> string) \<Rightarrow> row list option \<Rightarrow> bool" where
  "variant_isCompatible chartType k rt cols types rows =
    (case variants_of chartType of
       None \<Rightarrow> False
     | Some vs \<Rightarrow>
        (case find (\<lambda>v. key v = k) vs of
           None \<Rightarrow> False
         | Some v \<Rightarrow> isCompatible v rt cols types rows))"

section \<open>Column search (MagicCharts.tsx)\<close>











section \<open>Aggregation and binning (MagicCharts.tsx)\<close>

subsection \<open>Histogram binning\<close>

text \<open>
  \<^verbatim>\<open>Math.max(5, Math.min(30, Math.ceil(Math.log2(values.length) + 1)))\<close>, read where the
  array is not empty.
\<close>

definition binCount_of :: "nat \<Rightarrow> nat" where
  "binCount_of n = nat (max 5 (min 30 \<lceil>log 2 (real n) + 1\<rceil>))"

text \<open>
  \<^verbatim>\<open>counts[idx]++\<close>. When \<open>idx\<close> is an index of the array the bin grows by one. A key
  that is not an array index (NaN, an infinity) makes a property beside the bins and
  leaves them as they are. An integer at or beyond the length would extend the array;
  the quotient of the source is at most \<open>binCount\<close>, and \<open>binCount\<close> itself is moved
  into the last bin before the write.
\<close>

fun increment :: "nat list \<Rightarrow> jsnum \<Rightarrow> nat list" where
  "increment counts (Fin q) =
    (if of_int \<lfloor>q\<rfloor> = q \<and> 0 \<le> q \<and> nat \<lfloor>q\<rfloor> < length counts
     then counts[nat \<lfloor>q\<rfloor> := counts ! nat \<lfloor>q\<rfloor> + 1]
     else counts)"
| "increment counts idx = counts"

text \<open>
  \<^verbatim>\<open>let idx = Math.floor((v - min) / binSize); if (idx === binCount) idx = binCount - 1;\<close>
\<close>

definition bin_index :: "jsnum \<Rightarrow> jsnum \<Rightarrow> nat \<Rightarrow> jsnum \<Rightarrow> jsnum" where
  "bin_index mn binSize binCount v =
    (let idx = jfloor (jdiv (jsub v mn) binSize)
     in if idx = Fin (of_nat binCount) then Fin (of_nat binCount - 1) else idx)"

text \<open>
  The histogram branch up to the bin counts. The result is \<open>None\<close> where the source
  returns \<^verbatim>\<open>null\<close> for want of a numeric value.
\<close>

definition histogramCounts :: "runtime \<Rightarrow> row list \<Rightarrow> string \<Rightarrow> nat list option" where
  "histogramCounts rt rows col =
    (let values = filter (\<lambda>v. v \<noteq> NaN) (map (\<lambda>r. ToNumber rt (get_prop r col)) rows)
     in if length values = 0 then None
        else (let binCount = binCount_of (length values);
                  mn = Math_min values;
                  mx = Math_max values;
                  binSize = jdiv (jsub mx mn) (Fin (of_nat binCount));
                  counts = fold (\<lambda>v counts. increment counts (bin_index mn binSize binCount v))
                             values (replicate binCount 0)
              in Some counts))"

subsection \<open>Multi-series pivot\<close>


subsection \<open>Stacking normalization\<close>








text \<open>The rational that a finite number denotes.\<close>

fun finite_value :: "jsnum \<Rightarrow> rat" where
  "finite_value (Fin q) = q"
| "finite_value _ = 0"




text \<open>
  The bin of a finite value, for a finite minimum \<open>lo\<close> and a bin width \<open>w\<close> other
  than 0: what \<open>bin_index\<close> computes there, as a natural number.
\<close>

definition bin_of :: "rat \<Rightarrow> rat \<Rightarrow> nat \<Rightarrow> rat \<Rightarrow> nat" where
  "bin_of lo w bc q = (let k = nat \<lfloor>(q - lo) / w\<rfloor> in if k = bc then bc - 1 else k)"

section \<open>Runtimes that read given strings in a given way\<close>

text \<open>
  Where a statement depends on how the runtime reads particular strings, it is made
  for every runtime that reads them so: \<open>with_readings rt table\<close> converts each string
  of the table to the number and parses it to the time value listed with it, and is
  \<open>rt\<close> everywhere else.
\<close>

definition with_readings :: "runtime \<Rightarrow> (string \<times> jsnum \<times> jsnum) list \<Rightarrow> runtime" where
  "with_readings rt table =
    rt\<lparr> StringToNumber :=
          (\<lambda>s. case map_of table s of Some (n, t) \<Rightarrow> n | None \<Rightarrow> StringToNumber rt s),
        DateParse :=
          (\<lambda>s. case map_of table s of Some (n, t) \<Rightarrow> t | None \<Rightarrow> DateParse rt s) \<rparr>"

section \<open>Datasets\<close>

text \<open>Small datasets on which the theorems are applied.\<close>

definition ratings_rows :: "row list" where
  "ratings_rows =
    [[(''a'', JNum (Fin 1))], [(''a'', JNum (Fin 2))], [(''a'', JNum (Fin 3))],
     [(''a'', JNum (Fin 4))], [(''a'', JNum (Fin 5))], [(''a'', JNum (Fin 6))],
     [(''a'', JNum (Fin 7))], [(''a'', JNum (Fin 8))], [(''a'', JNum (Fin 9))],
     [(''a'', JNum (Fin 10))], [(''a'', JNum (Fin 11))], [(''a'', JNum (Fin 1))],
     [(''a'', JStr [])], [(''a'', JNull)], [(''b'', JNum (Fin 1))]]"

text \<open>
  Rows whose types do not depend on the runtime: the dates are \<^verbatim>\<open>Date\<close> objects (three
  objects, with the time values of 1 January, 15 January and 1 February 2024), the
  rating is a small integer code, the follower count is a number.
\<close>

definition engagement_rows :: "row list" where
  "engagement_rows =
    [[(''Date'', JDate 1 (Fin 1704067200000)), (''Rating'', JNum (Fin 3)),
      (''Followers'', JNum (Fin (25001 / 2)))],
     [(''Date'', JDate 2 (Fin 1705276800000)), (''Rating'', JNum (Fin 5)),
      (''Followers'', JNum (Fin 12800))],
     [(''Date'', JDate 3 (Fin 1706745600000)), (''Rating'', JNum (Fin 3)),
      (''Followers'', JNum (Fin 8500))]]"

definition followers_rows :: "row list" where
  "followers_rows =
    [[(''Platform'', JStr ''Instagram''), (''Date'', JStr ''2024-01-15''),
      (''Followers'', JNum (Fin (25601 / 2)))],
     [(''Platform'', JStr ''TikTok''), (''Date'', JStr ''2024-01-01''),
      (''Followers'', JNum (Fin 8500))],
     [(''Platform'', JStr ''Instagram''), (''Date'', JStr ''2024-01-01''),
      (''Followers'', JNum (Fin 12500))],
     [(''Platform'', JStr ''LinkedIn''), (''Date'', JStr ''2024-01-15''),
      (''Followers'', JNum (Fin 3250))],
     [(''Platform'', JStr ''Instagram''), (''Date'', JStr ''2024-01-15''),
      (''Followers'', JNum (Fin (25599 / 2)))]]"



definition mixed_column :: "jsval list" where
  "mixed_column =
    [JNum (Fin 1), JNum (Fin 2), JNum (Fin 3), JNum (Fin 2), JNum (Fin 5), JNum NaN]"

definition one_to_nine_and_Infinity :: "jsval list" where
  "one_to_nine_and_Infinity =
    [JNum (Fin 1), JNum (Fin 2), JNum (Fin 3), JNum (Fin 4), JNum (Fin 5), JNum (Fin 6),
     JNum (Fin 7), JNum (Fin 8), JNum (Fin 9), JNum PInf]"

definition followers_types :: "string \<rightharpoonup> string" where
  "followers_types =
    map_of [(''Date'', ''date''), (''Platform'', ''categorical''), (''Followers'', ''numeric'')]"


section \<open>A runtime with given readings\<close>

lemma with_readings_sel:
  "StringToNumber (with_readings rt table) s =
     (case map_of table s of Some (n, t) \<Rightarrow> n | None \<Rightarrow> StringToNumber rt s)"
  "DateParse (with_readings rt table) s =
     (case map_of table s of Some (n, t) \<Rightarrow> t | None \<Rightarrow> DateParse rt s)"
  "NumberToString (with_readings rt table) = NumberToString rt"
  "DateToString (with_readings rt table) = DateToString rt"
  "toLowerCase (with_readings rt table) = toLowerCase rt"
  by (simp_all add: with_readings_def)

section \<open>Sets as arrays\<close>

lemma set_fold_Set_add: "set (fold Set_add xs acc) = set acc \<union> set xs"
  by (induction xs arbitrary: acc) (auto simp: Set_add_def)

lemma distinct_fold_Set_add: "distinct acc \<Longrightarrow> distinct (fold Set_add xs acc)"
  by (induction xs arbitrary: acc) (auto simp: Set_add_def)

lemma set_new_Set: "set (new_Set xs) = set xs"
  by (simp add: new_Set_def set_fold_Set_add)

lemma distinct_new_Set: "distinct (new_Set xs)"
  by (simp add: new_Set_def distinct_fold_Set_add)

lemma length_new_Set: "length (new_Set xs) = card (set xs)"
  using distinct_card [OF distinct_new_Set, of xs] by (simp add: set_new_Set)

lemma length_filter_less_iff: "length (filter P xs) < length xs \<longleftrightarrow> (\<exists>x\<in>set xs. \<not> P x)"
proof
  assume "length (filter P xs) < length xs"
  then have "filter P xs \<noteq> xs" by auto
  then show "\<exists>x\<in>set xs. \<not> P x" by (auto simp: filter_id_conv)
next
  assume "\<exists>x\<in>set xs. \<not> P x"
  then show "length (filter P xs) < length xs" by (auto intro: length_filter_less)
qed

lemma length_1_obtain: "length xs = Suc 0 \<Longrightarrow> \<exists>x. xs = [x]"
  by (cases xs) auto

section \<open>The field analyzer\<close>

text \<open>
  Claim C9, as the code has it. The descriptor of \<^verbatim>\<open>analyzeField\<close> has \<open>hasNulls\<close> true
  exactly when some row's value for the column is \<^verbatim>\<open>null\<close> or \<^verbatim>\<open>undefined\<close> (a missing
  key reads as \<^verbatim>\<open>undefined\<close>); an empty string does not count, since the filter is
  \<^verbatim>\<open>v != null\<close>. The stored cardinality is the number of distinct values of the whole
  column other than \<^verbatim>\<open>null\<close> and \<^verbatim>\<open>undefined\<close>, whatever the 10-item cut of
  \<open>uniqueValues\<close> keeps.
\<close>

theorem analyzeField_hasNulls_cardinality:
  "(hasNulls (analyzeField rt data f) \<longleftrightarrow>
      (\<exists>row\<in>set data. get_prop row f = JNull \<or> get_prop row f = JUndefined))
   \<and> cardinality (analyzeField rt data f) =
      card ((\<lambda>row. get_prop row f) ` set data - {JNull, JUndefined})
   \<and> uniqueValues (analyzeField rt data f) =
      take 10 (new_Set (filter not_nullish (map (\<lambda>row. get_prop row f) data)))"
proof -
  let ?col = "map (\<lambda>row. get_prop row f) data"
  have "length (filter not_nullish ?col) < length ?col \<longleftrightarrow> (\<exists>v\<in>set ?col. \<not> not_nullish v)"
    by (rule length_filter_less_iff)
  then have h: "hasNulls (analyzeField rt data f) \<longleftrightarrow>
      (\<exists>row\<in>set data. get_prop row f = JNull \<or> get_prop row f = JUndefined)"
    by (auto simp: analyzeField_def Let_def not_nullish_def)
  have "set (filter not_nullish ?col) = (\<lambda>row. get_prop row f) ` set data - {JNull, JUndefined}"
    by (auto simp: not_nullish_def)
  then have c: "cardinality (analyzeField rt data f) =
      card ((\<lambda>row. get_prop row f) ` set data - {JNull, JUndefined})"
    by (simp add: analyzeField_def Let_def length_new_Set)
  show ?thesis using h c by (simp add: analyzeField_def Let_def)
qed

text \<open>
  On fifteen rows with twelve distinct non-null values, one null and one row without the
  key: \<open>hasNulls\<close> holds, the cardinality is 12 and the preview has 10 entries.
\<close>

theorem analyzeField_hasNulls_cardinality_witness:
  "\<forall>rt. hasNulls (analyzeField rt ratings_rows ''a'')
     \<and> cardinality (analyzeField rt ratings_rows ''a'') = 12
     \<and> length (uniqueValues (analyzeField rt ratings_rows ''a'')) = 10"
proof
  fix rt
  have 1: "\<exists>row\<in>set ratings_rows. get_prop row ''a'' = JNull \<or> get_prop row ''a'' = JUndefined"
    by (simp add: ratings_rows_def get_prop_def)
  have 2: "new_Set (filter not_nullish (map (\<lambda>row. get_prop row ''a'') ratings_rows)) =
     [JNum (Fin 1), JNum (Fin 2), JNum (Fin 3), JNum (Fin 4), JNum (Fin 5), JNum (Fin 6),
      JNum (Fin 7), JNum (Fin 8), JNum (Fin 9), JNum (Fin 10), JNum (Fin 11), JStr []]"
    by code_simp
  have 3: "card ((\<lambda>row. get_prop row ''a'') ` set ratings_rows - {JNull, JUndefined}) = 12"
    by code_simp
  show "hasNulls (analyzeField rt ratings_rows ''a'')
     \<and> cardinality (analyzeField rt ratings_rows ''a'') = 12
     \<and> length (uniqueValues (analyzeField rt ratings_rows ''a'')) = 10"
    using analyzeField_hasNulls_cardinality [of rt ratings_rows "''a''"] 1 2 3
    by simp
qed

text \<open>
  The claim as the specification words it counts the empty string as a null. A row
  whose value is the empty string does not set \<open>hasNulls\<close>.
\<close>

theorem analyzeField_empty_string_counterexample:
  "\<forall>rt. get_prop [(''a'', JStr [])] ''a'' = JStr []
     \<and> hasNulls (analyzeField rt [[(''a'', JStr [])]] ''a'') = False"
  by (simp add: analyzeField_def Let_def get_prop_def not_nullish_def)

section \<open>The suggestion engine\<close>

text \<open>
  Claim C8. With no field selection, absent or empty, \<^verbatim>\<open>suggestCharts\<close> returns the
  sentinel \<^verbatim>\<open>{ suggestions: [], reason: 'No fields selected' }\<close> for every dataset, hence
  for every record count, and it returns: the result is a value, not an error.
\<close>

theorem suggestCharts_no_fields:
  "suggestCharts rt data None =
      Inr \<lparr>suggestions = [], result_reason = Some ''No fields selected'', fieldAnalysis = None\<rparr>
   \<and> suggestCharts rt data (Some []) =
      Inr \<lparr>suggestions = [], result_reason = Some ''No fields selected'', fieldAnalysis = None\<rparr>"
  by (simp add: suggestCharts_def)

theorem suggestCharts_no_fields_witness:
  "\<forall>rt. suggestCharts rt followers_rows (Some []) =
      Inr \<lparr>suggestions = [], result_reason = Some ''No fields selected'', fieldAnalysis = None\<rparr>"
proof
  fix rt
  show "suggestCharts rt followers_rows (Some []) =
      Inr \<lparr>suggestions = [], result_reason = Some ''No fields selected'', fieldAnalysis = None\<rparr>"
    using suggestCharts_no_fields [of rt followers_rows] by simp
qed

text \<open>
  The only operation of the engine that can throw is \<^verbatim>\<open>value.toString()\<close> in the
  geographic rule. The unique values of an analyzed field are never null, so on the
  fields that \<^verbatim>\<open>suggestCharts\<close> passes on it does not.
\<close>

lemma containsGeographicValues_returns:
  "\<forall>v\<in>set vs. not_nullish v \<Longrightarrow> \<exists>b. containsGeographicValues rt vs = Inr b"
proof (induction vs)
  case Nil
  show ?case by (rule exI [of _ False]) simp
next
  case (Cons v vs)
  then have "not_nullish v" by simp
  then obtain s where "toString_method rt v = Inr s"
    by (cases v) (auto simp: not_nullish_def)
  moreover obtain b where "containsGeographicValues rt vs = Inr b"
    using Cons by auto
  ultimately show ?case by (cases "toLowerCase rt s \<in> set geoValues") auto
qed

lemma geoFields_returns:
  "\<forall>d\<in>set dims. \<forall>v\<in>set (uniqueValues d). not_nullish v \<Longrightarrow>
     \<exists>gs. geoFields rt dims = Inr gs"
proof (induction dims)
  case Nil
  then show ?case by simp
next
  case (Cons d dims)
  then obtain gs where gs: "geoFields rt dims = Inr gs" by auto
  from Cons.prems have "\<forall>v\<in>set (uniqueValues d). not_nullish v" by simp
  then obtain b where "containsGeographicValues rt (uniqueValues d) = Inr b"
    using containsGeographicValues_returns by blast
  with gs show ?case by auto
qed

lemma uniqueValues_analyzeField:
  "v \<in> set (uniqueValues (analyzeField rt data f)) \<Longrightarrow> not_nullish v"
proof -
  assume "v \<in> set (uniqueValues (analyzeField rt data f))"
  then have "v \<in> set (new_Set (filter not_nullish (map (\<lambda>row. get_prop row f) data)))"
    by (auto simp: analyzeField_def Let_def dest: in_set_takeD)
  then show ?thesis by (simp add: set_new_Set)
qed

lemma applyTableauRules_returns:
  assumes "\<forall>d\<in>set dims. \<forall>v\<in>set (uniqueValues d). not_nullish v"
  shows "\<exists>gs. geoFields rt dims = Inr gs \<and>
     applyTableauRules rt dims ms ds n =
       Inr \<lparr> suggestions = sort_key priority (pushed_suggestions rt dims ms ds n gs),
             result_reason = None,
             fieldAnalysis = Some \<lparr>dimensions = dims, measures = ms, dates = ds\<rparr> \<rparr>"
  using geoFields_returns [OF assms, of rt] by (auto simp: applyTableauRules_def)

lemmas rule_defs = rule1_def rule2_def rule3_def rule4_def rule5_def rule6_def rule7_def
  rule8_def rule9_def rule10_def rule11_def rule12_def rule13_def rule14_def
  stackableScenarios_def rule_high_cardinality_def rule_large_dataset_def
  rule_geographic_def fallback_def




lemma pushed_date_dim_measure:
  "filter (\<lambda>s. type s = ''stacked_area'' \<and> priority s = 2)
      (pushed_suggestions rt [dm] [m] [d] n gs) =
    (if cardinalityLevel dm = LOW then
       [\<lparr>type = ''stacked_area'', priority = 2,
         reason = ''Stacked area - show contribution over time''\<rparr>]
     else [])
    @ [\<lparr>type = ''stacked_area'', priority = 2,
        reason = ''Stackable data structure - stacked_area shows composition''\<rparr>]"
  by (simp add: pushed_suggestions_def pushed_before_geo_def rule_defs)

text \<open>
  Claim C10. When the analysis of the selected fields gives one dimension, one measure
  and one date, \<^verbatim>\<open>suggestCharts\<close> returns and its suggestions hold a stacked_area at
  priority 2 whatever the cardinality level of the dimension: the stacking scenario
  pushes it without reading the level. When the level is LOW the rule for date, dimension
  and measure pushes a second one, so the list has two such entries; otherwise it has
  one.
\<close>

theorem suggestCharts_stacked_area:
  assumes "length (filter (\<lambda>f. dtype f = DIMENSION) (map (analyzeField rt data) sel)) = 1"
      and "length (filter (\<lambda>f. dtype f = MEASURE) (map (analyzeField rt data) sel)) = 1"
      and "length (filter (\<lambda>f. dtype f = DATE) (map (analyzeField rt data) sel)) = 1"
  shows "\<exists>r dm. suggestCharts rt data (Some sel) = Inr r
     \<and> filter (\<lambda>f. dtype f = DIMENSION) (map (analyzeField rt data) sel) = [dm]
     \<and> (\<exists>s\<in>set (suggestions r). type s = ''stacked_area'' \<and> priority s = 2)
     \<and> length (filter (\<lambda>s. type s = ''stacked_area'' \<and> priority s = 2) (suggestions r))
         = (if cardinalityLevel dm = LOW then 2 else 1)"
proof -
  let ?an = "map (analyzeField rt data) sel"
  obtain m d dm where m: "filter (\<lambda>f. dtype f = MEASURE) ?an = [m]"
    and d: "filter (\<lambda>f. dtype f = DATE) ?an = [d]"
    and e: "filter (\<lambda>f. dtype f = DIMENSION) ?an = [dm]"
    using assms length_1_obtain by (metis One_nat_def)
  from m have ne: "sel \<noteq> []" by auto
  have "dm \<in> set (filter (\<lambda>f. dtype f = DIMENSION) ?an)" using e by simp
  then have "dm \<in> set ?an" by simp
  then obtain f where "dm = analyzeField rt data f" by auto
  then have "\<forall>x\<in>set [dm]. \<forall>v\<in>set (uniqueValues x). not_nullish v"
    using uniqueValues_analyzeField by simp
  from applyTableauRules_returns [OF this, of rt "[m]" "[d]" "length data"]
  obtain gs where r: "applyTableauRules rt [dm] [m] [d] (length data) =
       Inr \<lparr> suggestions = sort_key priority (pushed_suggestions rt [dm] [m] [d] (length data) gs),
             result_reason = None,
             fieldAnalysis = Some \<lparr>dimensions = [dm], measures = [m], dates = [d]\<rparr> \<rparr>"
    by blast
  have s: "suggestCharts rt data (Some sel) = applyTableauRules rt [dm] [m] [d] (length data)"
    using ne m d e by (simp add: suggestCharts_def Let_def)
  let ?r = "\<lparr> suggestions = sort_key priority (pushed_suggestions rt [dm] [m] [d] (length data) gs),
             result_reason = None,
             fieldAnalysis = Some \<lparr>dimensions = [dm], measures = [m], dates = [d]\<rparr> \<rparr>"
  have c: "length (filter (\<lambda>s. type s = ''stacked_area'' \<and> priority s = 2) (suggestions ?r))
         = (if cardinalityLevel dm = LOW then 2 else 1)"
    by (simp add: filter_sort pushed_date_dim_measure del: filter.simps)
  then have "filter (\<lambda>s. type s = ''stacked_area'' \<and> priority s = 2) (suggestions ?r) \<noteq> []"
    by (auto split: if_splits)
  then have x: "\<exists>s\<in>set (suggestions ?r). type s = ''stacked_area'' \<and> priority s = 2"
    by (simp only: filter_empty_conv) blast
  show ?thesis using s r e c x by (intro exI [of _ ?r] exI [of _ dm]) simp
qed

text \<open>
  On the engagement rows, where the rating has two values: two stacked_area entries at
  priority 2.
\<close>

theorem suggestCharts_stacked_area_witness:
  "\<forall>rt. length (filter (\<lambda>f. dtype f = DIMENSION)
        (map (analyzeField rt engagement_rows) [''Date'', ''Rating'', ''Followers''])) = 1
     \<and> length (filter (\<lambda>f. dtype f = MEASURE)
        (map (analyzeField rt engagement_rows) [''Date'', ''Rating'', ''Followers''])) = 1
     \<and> length (filter (\<lambda>f. dtype f = DATE)
        (map (analyzeField rt engagement_rows) [''Date'', ''Rating'', ''Followers''])) = 1
     \<and> (\<exists>r. suggestCharts rt engagement_rows
                (Some [''Date'', ''Rating'', ''Followers'']) = Inr r
           \<and> length (filter (\<lambda>s. type s = ''stacked_area'' \<and> priority s = 2) (suggestions r)) = 2)"
proof
  fix rt
  let ?an = "map (analyzeField rt engagement_rows) [''Date'', ''Rating'', ''Followers'']"
  have h1: "length (filter (\<lambda>f. dtype f = DIMENSION) ?an) = 1" by code_simp
  have h2: "length (filter (\<lambda>f. dtype f = MEASURE) ?an) = 1" by code_simp
  have h3: "length (filter (\<lambda>f. dtype f = DATE) ?an) = 1" by code_simp
  have lv: "map cardinalityLevel (filter (\<lambda>f. dtype f = DIMENSION) ?an) = [LOW]" by code_simp
  from suggestCharts_stacked_area [OF h1 h2 h3]
  obtain r dm where r: "suggestCharts rt engagement_rows
              (Some [''Date'', ''Rating'', ''Followers'']) = Inr r"
    and dm: "filter (\<lambda>f. dtype f = DIMENSION) ?an = [dm]"
    and n: "length (filter (\<lambda>s. type s = ''stacked_area'' \<and> priority s = 2) (suggestions r))
         = (if cardinalityLevel dm = LOW then 2 else 1)"
    by blast
  from lv dm have "cardinalityLevel dm = LOW" by simp
  with n r h1 h2 h3
  show "length (filter (\<lambda>f. dtype f = DIMENSION) ?an) = 1
     \<and> length (filter (\<lambda>f. dtype f = MEASURE) ?an) = 1
     \<and> length (filter (\<lambda>f. dtype f = DATE) ?an) = 1
     \<and> (\<exists>r. suggestCharts rt engagement_rows
                (Some [''Date'', ''Rating'', ''Followers'']) = Inr r
           \<and> length (filter (\<lambda>s. type s = ''stacked_area'' \<and> priority s = 2) (suggestions r)) = 2)"
    by simp
qed

section \<open>The column classifier\<close>

lemma fraction_exceeds:
  "c \<le> n \<Longrightarrow>
    ((of_nat c :: rat) / of_nat n > 8 / 10) = ((of_nat c :: rat) > of_nat n * (8 / 10))"
proof (cases "n = 0")
  case True
  moreover assume "c \<le> n"
  ultimately show ?thesis by simp
next
  case False
  then have "(0::rat) < of_nat n" by simp
  then show ?thesis by (simp add: pos_less_divide_eq mult.commute)
qed

text \<open>
  Claim C1, as the code has it. The numeric values of \<^verbatim>\<open>determineDataType\<close> are the
  entries whose type is number and that are not NaN: a string that reads as a number is
  not one of them, an infinity is. When the fraction of these entries exceeds 0.8 and
  the fraction of dates does not, the result is DIMENSION when they have at most 20
  distinct values and each of them is an integer, and MEASURE otherwise.
\<close>

theorem determineDataType_numeric:
  assumes "\<not> (of_nat (length (filter (\<lambda>v. instanceof_Date v \<or> isDateString rt v) vs)) :: rat)
              / of_nat (length vs) > 8 / 10"
      and "(of_nat (length (filter is_number_not_NaN vs)) :: rat) / of_nat (length vs) > 8 / 10"
  shows "determineDataType rt vs =
    (if card (set (filter is_number_not_NaN vs)) \<le> 20
        \<and> (\<forall>v\<in>set (filter is_number_not_NaN vs). isInteger v)
     then DIMENSION else MEASURE)"
proof -
  let ?dates = "filter (\<lambda>v. instanceof_Date v \<or> isDateString rt v) vs"
  let ?nums = "filter is_number_not_NaN vs"
  have d: "\<not> (of_nat (length ?dates) :: rat) > of_nat (length vs) * (8 / 10)"
    using assms(1) fraction_exceeds [of "length ?dates" "length vs"] length_filter_le by blast
  have n: "(of_nat (length ?nums) :: rat) > of_nat (length vs) * (8 / 10)"
    using assms(2) fraction_exceeds [of "length ?nums" "length vs"] length_filter_le by blast
  have "determineDataType rt vs =
    (if length (new_Set ?nums) \<le> 20 \<and> list_all isInteger ?nums then DIMENSION else MEASURE)"
    unfolding determineDataType_def Let_def using d n by (simp only: if_False if_True)
  then show ?thesis by (simp only: length_new_Set list_all_iff)
qed

text \<open>
  Five integers with four distinct values and one NaN: five sixths of the column are
  numeric values, and the column is a DIMENSION.
\<close>

theorem determineDataType_numeric_witness:
  "\<forall>rt. \<not> (of_nat (length (filter (\<lambda>v. instanceof_Date v \<or> isDateString rt v)
            mixed_column)) :: rat) / of_nat (length mixed_column) > 8 / 10
     \<and> (of_nat (length (filter is_number_not_NaN mixed_column)) :: rat)
          / of_nat (length mixed_column) > 8 / 10
     \<and> determineDataType rt mixed_column = DIMENSION"
proof
  fix rt
  have h1: "\<not> (of_nat (length (filter (\<lambda>v. instanceof_Date v \<or> isDateString rt v)
          mixed_column)) :: rat) / of_nat (length mixed_column) > 8 / 10"
    by code_simp
  have h2: "(of_nat (length (filter is_number_not_NaN mixed_column)) :: rat)
        / of_nat (length mixed_column) > 8 / 10"
    by code_simp
  have c: "card (set (filter is_number_not_NaN mixed_column)) \<le> 20
        \<and> (\<forall>v\<in>set (filter is_number_not_NaN mixed_column). isInteger v)"
    by code_simp
  show "\<not> (of_nat (length (filter (\<lambda>v. instanceof_Date v \<or> isDateString rt v)
            mixed_column)) :: rat) / of_nat (length mixed_column) > 8 / 10
     \<and> (of_nat (length (filter is_number_not_NaN mixed_column)) :: rat)
          / of_nat (length mixed_column) > 8 / 10
     \<and> determineDataType rt mixed_column = DIMENSION"
    using h1 h2 c determineDataType_numeric [OF h1 h2] by simp
qed

text \<open>
  The claim as the specification words it fails in two ways, on any runtime.

  The column 1, 2, ..., 9, Infinity: nine tenths of it are finite numbers, none of it is
  a date, and the finite numbers are nine integers, so the specification gives
  DIMENSION. The code counts Infinity among the numeric values; it is not an integer, and
  the code returns MEASURE.

  The column with the one string \<^verbatim>\<open>"0.55"\<close>, on a runtime that reads that string as the
  number 0.55 and does not parse it as a date: it is parseable as a finite number that
  is not an integer, so the specification gives MEASURE. The code counts no numeric
  value, since the entry is a string, and returns DIMENSION. Parsed CSV rows hold such
  strings.
\<close>

theorem determineDataType_not_parseability_counterexample:
  "\<forall>rt.
     (of_nat (length (filter (spec_parseable_as_finite_number rt) one_to_nine_and_Infinity)) :: rat)
        / of_nat (length one_to_nine_and_Infinity) > 8 / 10
     \<and> \<not> (of_nat (length (filter (\<lambda>v. instanceof_Date v \<or> isDateString rt v)
              one_to_nine_and_Infinity)) :: rat) / of_nat (length one_to_nine_and_Infinity) > 8 / 10
     \<and> spec_numeric_type rt one_to_nine_and_Infinity = DIMENSION
     \<and> determineDataType rt one_to_nine_and_Infinity = MEASURE
     \<and> (of_nat (length (filter (spec_parseable_as_finite_number
              (with_readings rt [(''0.55'', Fin (55 / 100), NaN)])) [JStr ''0.55''])) :: rat)
          / of_nat (length [JStr ''0.55'']) > 8 / 10
     \<and> \<not> (of_nat (length (filter (\<lambda>v. instanceof_Date v
              \<or> isDateString (with_readings rt [(''0.55'', Fin (55 / 100), NaN)]) v)
              [JStr ''0.55''])) :: rat) / of_nat (length [JStr ''0.55'']) > 8 / 10
     \<and> spec_numeric_type (with_readings rt [(''0.55'', Fin (55 / 100), NaN)]) [JStr ''0.55'']
          = MEASURE
     \<and> determineDataType (with_readings rt [(''0.55'', Fin (55 / 100), NaN)]) [JStr ''0.55'']
          = DIMENSION"
proof
  fix rt
  show "(of_nat (length (filter (spec_parseable_as_finite_number rt) one_to_nine_and_Infinity)) :: rat)
        / of_nat (length one_to_nine_and_Infinity) > 8 / 10
     \<and> \<not> (of_nat (length (filter (\<lambda>v. instanceof_Date v \<or> isDateString rt v)
              one_to_nine_and_Infinity)) :: rat) / of_nat (length one_to_nine_and_Infinity) > 8 / 10
     \<and> spec_numeric_type rt one_to_nine_and_Infinity = DIMENSION
     \<and> determineDataType rt one_to_nine_and_Infinity = MEASURE
     \<and> (of_nat (length (filter (spec_parseable_as_finite_number
              (with_readings rt [(''0.55'', Fin (55 / 100), NaN)])) [JStr ''0.55''])) :: rat)
          / of_nat (length [JStr ''0.55'']) > 8 / 10
     \<and> \<not> (of_nat (length (filter (\<lambda>v. instanceof_Date v
              \<or> isDateString (with_readings rt [(''0.55'', Fin (55 / 100), NaN)]) v)
              [JStr ''0.55''])) :: rat) / of_nat (length [JStr ''0.55'']) > 8 / 10
     \<and> spec_numeric_type (with_readings rt [(''0.55'', Fin (55 / 100), NaN)]) [JStr ''0.55'']
          = MEASURE
     \<and> determineDataType (with_readings rt [(''0.55'', Fin (55 / 100), NaN)]) [JStr ''0.55'']
          = DIMENSION"
  proof -
    let ?rt = "with_readings rt [(''0.55'', Fin (55 / 100), NaN)]"
    have a1: "(of_nat (length (filter (spec_parseable_as_finite_number rt)
            one_to_nine_and_Infinity)) :: rat) / of_nat (length one_to_nine_and_Infinity) > 8 / 10
       \<and> \<not> (of_nat (length (filter (\<lambda>v. instanceof_Date v \<or> isDateString rt v)
            one_to_nine_and_Infinity)) :: rat) / of_nat (length one_to_nine_and_Infinity) > 8 / 10
       \<and> spec_numeric_type rt one_to_nine_and_Infinity = DIMENSION
       \<and> determineDataType rt one_to_nine_and_Infinity = MEASURE"
      by code_simp
    have a2: "(of_nat (length (filter (spec_parseable_as_finite_number ?rt)
            [JStr ''0.55''])) :: rat) / of_nat (length [JStr ''0.55'']) > 8 / 10
       \<and> \<not> (of_nat (length (filter (\<lambda>v. instanceof_Date v \<or> isDateString ?rt v)
            [JStr ''0.55''])) :: rat) / of_nat (length [JStr ''0.55'']) > 8 / 10"
      by (simp add: with_readings_sel)
    have f: "\<lfloor>11 / 20 :: rat\<rfloor> = 0" by (simp add: floor_eq_iff)
    have a3: "spec_numeric_type ?rt [JStr ''0.55''] = MEASURE"
      by (simp add: with_readings_sel spec_numeric_type_def Let_def f)
    have a4: "determineDataType ?rt [JStr ''0.55''] = DIMENSION"
      by (simp add: with_readings_sel determineDataType_def Let_def)
    from a1 a2 a3 a4 show ?thesis by blast
  qed
qed

section \<open>Variant compatibility and column search\<close>

text \<open>
  Claim C7. For two columns of which one is typed categorical and the other numeric,
  the predicates of the variants Bar/single and Pie/standard, taken from the table, give
  the same answer on \<open>[a, b]\<close> and on \<open>[b, a]\<close>, and that answer is yes.
\<close>

theorem single_bar_and_pie_order_independent:
  assumes "(types a = Some ''categorical'' \<and> types b = Some ''numeric'')
         \<or> (types a = Some ''numeric'' \<and> types b = Some ''categorical'')"
  shows "variant_isCompatible ''Bar'' ''single'' rt [a, b] types rows
           = variant_isCompatible ''Bar'' ''single'' rt [b, a] types rows
       \<and> variant_isCompatible ''Pie'' ''standard'' rt [a, b] types rows
           = variant_isCompatible ''Pie'' ''standard'' rt [b, a] types rows
       \<and> variant_isCompatible ''Bar'' ''single'' rt [a, b] types rows
       \<and> variant_isCompatible ''Pie'' ''standard'' rt [a, b] types rows"
proof -
  have b: "variant_isCompatible ''Bar'' ''single'' rt cols types rows = Bar_single rt cols types rows"
    for cols
    by (simp add: variant_isCompatible_def variants_of_def CHART_VARIANTS_def)
  have p: "variant_isCompatible ''Pie'' ''standard'' rt cols types rows = Pie_standard rt cols types rows"
    for cols
    by (simp add: variant_isCompatible_def variants_of_def CHART_VARIANTS_def)
  show ?thesis using assms unfolding b p by (auto simp: Bar_single_def Pie_standard_def)
qed

text \<open>On the columns \<^verbatim>\<open>Platform\<close> (categorical) and \<^verbatim>\<open>Followers\<close> (numeric).\<close>

theorem single_bar_and_pie_order_independent_witness:
  "\<forall>rt.
     ((followers_types ''Platform'' = Some ''categorical''
          \<and> followers_types ''Followers'' = Some ''numeric'')
        \<or> (followers_types ''Platform'' = Some ''numeric''
          \<and> followers_types ''Followers'' = Some ''categorical''))
     \<and> variant_isCompatible ''Bar'' ''single'' rt [''Platform'', ''Followers''] followers_types None
     \<and> variant_isCompatible ''Bar'' ''single'' rt [''Followers'', ''Platform''] followers_types None
     \<and> variant_isCompatible ''Pie'' ''standard'' rt [''Platform'', ''Followers''] followers_types None
     \<and> variant_isCompatible ''Pie'' ''standard'' rt [''Followers'', ''Platform''] followers_types None"
proof
  fix rt
  have h: "(followers_types ''Platform'' = Some ''categorical''
          \<and> followers_types ''Followers'' = Some ''numeric'')
        \<or> (followers_types ''Platform'' = Some ''numeric''
          \<and> followers_types ''Followers'' = Some ''categorical'')"
    by (simp add: followers_types_def)
  show "((followers_types ''Platform'' = Some ''categorical''
          \<and> followers_types ''Followers'' = Some ''numeric'')
        \<or> (followers_types ''Platform'' = Some ''numeric''
          \<and> followers_types ''Followers'' = Some ''categorical''))
     \<and> variant_isCompatible ''Bar'' ''single'' rt [''Platform'', ''Followers''] followers_types None
     \<and> variant_isCompatible ''Bar'' ''single'' rt [''Followers'', ''Platform''] followers_types None
     \<and> variant_isCompatible ''Pie'' ''standard'' rt [''Platform'', ''Followers''] followers_types None
     \<and> variant_isCompatible ''Pie'' ''standard'' rt [''Followers'', ''Platform''] followers_types None"
    using h single_bar_and_pie_order_independent [OF h, of rt None] by blast
qed















section \<open>Proportional stacking\<close>












section \<open>Multi-series pivot\<close>

lemma is_finite_conv: "is_finite x \<Longrightarrow> x = Fin (finite_value x)"
  by (cases x) auto





section \<open>Histogram binning\<close>

lemma binCount_of_ge_5: "5 \<le> binCount_of n"
  by (simp add: binCount_of_def)

lemma binCount_of_le_30: "binCount_of n \<le> 30"
  by (simp add: binCount_of_def)

lemma binCount_of_1: "binCount_of 1 = 5"
  by (simp add: binCount_of_def)

lemma binCount_of_1000: "binCount_of 1000 = 11"
proof -
  have "\<lceil>log (real 2) (real 1000)\<rceil> = int 9 + 1"
    by (rule ceiling_log_nat_eq_if) simp_all
  then have "\<lceil>log 2 (real 1000) + 1\<rceil> = 11" by simp
  then show ?thesis by (simp add: binCount_of_def)
qed

lemma fold_jmin_const: "\<forall>v\<in>set vs. v = Fin q \<Longrightarrow> fold jmin vs (Fin q) = Fin q"
  by (induction vs) (simp_all add: jmin_def)

lemma fold_jmax_const: "\<forall>v\<in>set vs. v = Fin q \<Longrightarrow> fold jmax vs (Fin q) = Fin q"
  by (induction vs) (simp_all add: jmax_def)

lemma Math_min_const: "vs \<noteq> [] \<Longrightarrow> \<forall>v\<in>set vs. v = Fin q \<Longrightarrow> Math_min vs = Fin q"
  by (cases vs) (simp_all add: Math_min_def jmin_def fold_jmin_const)

lemma Math_max_const: "vs \<noteq> [] \<Longrightarrow> \<forall>v\<in>set vs. v = Fin q \<Longrightarrow> Math_max vs = Fin q"
  by (cases vs) (simp_all add: Math_max_def jmax_def fold_jmax_const)

lemma fold_increment_NaN:
  "\<forall>v\<in>set vs. idx v = NaN \<Longrightarrow> fold (\<lambda>v counts. increment counts (idx v)) vs counts = counts"
  by (induction vs) simp_all

text \<open>
  On a column whose numeric values are all the same, the bin width is 0, the quotient
  \<open>0 / 0\<close> is NaN for every value, and the write \<^verbatim>\<open>counts[NaN]++\<close> touches no bin:
  every bin count stays 0.
\<close>

lemma histogramCounts_constant_column:
  assumes "rows \<noteq> []"
      and "\<forall>r\<in>set rows. ToNumber rt (get_prop r col) = Fin q"
  shows "\<exists>counts. histogramCounts rt rows col = Some counts
           \<and> counts = replicate (binCount_of (length rows)) 0
           \<and> sum_list counts \<noteq> length rows"
proof -
  let ?n = "length rows"
  let ?vs = "filter (\<lambda>v. v \<noteq> NaN) (map (\<lambda>r. ToNumber rt (get_prop r col)) rows)"
  have n: "0 < ?n" using assms(1) by simp
  have e: "?vs = map (\<lambda>r. ToNumber rt (get_prop r col)) rows"
    using assms(2) by (simp add: filter_id_conv)
  then have len: "length ?vs = ?n" by simp
  have ne: "?vs \<noteq> []" using assms(1) e by simp
  have c: "\<forall>v\<in>set ?vs. v = Fin q" using assms(2) by auto
  have b: "0 < binCount_of ?n" using binCount_of_ge_5 [of ?n] by simp
  have i: "bin_index (Fin q) (jdiv (jsub (Fin q) (Fin q)) (Fin (of_nat (binCount_of ?n))))
             (binCount_of ?n) (Fin q) = NaN"
    using b by (simp add: bin_index_def jsub_def)
  have "histogramCounts rt rows col =
     Some (fold (\<lambda>v counts. increment counts
              (bin_index (Fin q) (jdiv (jsub (Fin q) (Fin q)) (Fin (of_nat (binCount_of ?n))))
                 (binCount_of ?n) v))
            ?vs (replicate (binCount_of ?n) 0))"
    using n unfolding histogramCounts_def Let_def
    by (simp only: len Math_min_const [OF ne c] Math_max_const [OF ne c]) simp
  also have "fold (\<lambda>v counts. increment counts
              (bin_index (Fin q) (jdiv (jsub (Fin q) (Fin q)) (Fin (of_nat (binCount_of ?n))))
                 (binCount_of ?n) v))
            ?vs (replicate (binCount_of ?n) 0)
          = replicate (binCount_of ?n) 0"
  proof (rule fold_increment_NaN)
    show "\<forall>v\<in>set ?vs. bin_index (Fin q)
             (jdiv (jsub (Fin q) (Fin q)) (Fin (of_nat (binCount_of ?n)))) (binCount_of ?n) v = NaN"
      using c i by (metis (lifting))
  qed
  finally show ?thesis using n by (simp add: sum_list_replicate)
qed

lemma binCount_of_pos: "0 < binCount_of n"
  by (simp add: binCount_of_def)

lemma jmin_Fin: "jmin (Fin x) (Fin a) = Fin (min x a)"
  by (simp add: jmin_def min_def)

lemma jmax_Fin: "jmax (Fin x) (Fin a) = Fin (max x a)"
  by (simp add: jmax_def max_def)

lemma fold_jmin_Fin: "fold jmin (map Fin qs) (Fin a) = Fin (fold min qs a)"
  by (induction qs arbitrary: a) (simp_all add: jmin_Fin)

lemma fold_jmax_Fin: "fold jmax (map Fin qs) (Fin a) = Fin (fold max qs a)"
  by (induction qs arbitrary: a) (simp_all add: jmax_Fin)

lemma Math_min_Fin: "qs \<noteq> [] \<Longrightarrow> Math_min (map Fin qs) = Fin (Min (set qs))"
proof (cases qs)
  case Nil
  moreover assume "qs \<noteq> []"
  ultimately show ?thesis by simp
next
  case (Cons q qs')
  have "jmin (Fin q) PInf = Fin q" by (simp add: jmin_def)
  moreover have "fold min qs' q = Min (set (q # qs'))" by (simp only: Min.set_eq_fold)
  ultimately show ?thesis
    unfolding Cons by (simp add: Math_min_def fold_jmin_Fin)
qed

lemma Math_max_Fin: "qs \<noteq> [] \<Longrightarrow> Math_max (map Fin qs) = Fin (Max (set qs))"
proof (cases qs)
  case Nil
  moreover assume "qs \<noteq> []"
  ultimately show ?thesis by simp
next
  case (Cons q qs')
  have "jmax (Fin q) NInf = Fin q" by (simp add: jmax_def)
  moreover have "fold max qs' q = Max (set (q # qs'))" by (simp only: Max.set_eq_fold)
  ultimately show ?thesis
    unfolding Cons by (simp add: Math_max_def fold_jmax_Fin)
qed

lemma bin_index_Fin:
  assumes "0 < w" "lo \<le> q" "(q - lo) / w \<le> of_nat bc" "0 < bc"
  shows "bin_index (Fin lo) (Fin w) bc (Fin q) = Fin (of_nat (bin_of lo w bc q))"
    and "bin_of lo w bc q < bc"
proof -
  let ?k = "\<lfloor>(q - lo) / w\<rfloor>"
  have nonneg: "0 \<le> ?k" using assms(1,2) by simp
  have le: "?k \<le> int bc"
  proof -
    have "?k \<le> \<lfloor>(of_nat bc :: rat)\<rfloor>" using assms(3) by (rule floor_mono)
    then show ?thesis by simp
  qed
  have k: "(of_int ?k :: rat) = of_nat (nat ?k)" using nonneg by simp
  have idx: "jfloor (jdiv (jsub (Fin q) (Fin lo)) (Fin w)) = Fin (of_nat (nat ?k))"
    using assms(1) k by (simp add: jsub_def)
  show "bin_index (Fin lo) (Fin w) bc (Fin q) = Fin (of_nat (bin_of lo w bc q))"
    unfolding bin_index_def idx Let_def bin_of_def
    using assms(4) by (auto simp: of_nat_diff)
  show "bin_of lo w bc q < bc"
    using nonneg le assms(4) by (auto simp: bin_of_def Let_def)
qed

lemma increment_in_range:
  "j < length counts \<Longrightarrow> increment counts (Fin (of_nat j)) = counts[j := counts ! j + 1]"
  by simp

lemma sum_list_bump:
  fixes counts :: "nat list"
  shows "j < length counts \<Longrightarrow> sum_list (counts[j := counts ! j + 1]) = sum_list counts + 1"
  by (simp add: sum_list_update)

lemma fold_increment_sum:
  assumes "0 < w" "0 < bc" "length counts = bc"
      and "\<forall>q\<in>set qs. lo \<le> q \<and> (q - lo) / w \<le> of_nat bc"
  shows "length (fold (\<lambda>v counts. increment counts (bin_index (Fin lo) (Fin w) bc v))
                  (map Fin qs) counts) = bc
       \<and> sum_list (fold (\<lambda>v counts. increment counts (bin_index (Fin lo) (Fin w) bc v))
                  (map Fin qs) counts) = sum_list counts + length qs"
  using assms(3,4)
proof (induction qs arbitrary: counts)
  case Nil
  then show ?case by simp
next
  case (Cons q qs)
  then have q: "lo \<le> q" "(q - lo) / w \<le> of_nat bc" by simp_all
  let ?j = "bin_of lo w bc q"
  have j: "?j < length counts"
    using bin_index_Fin(2) [OF assms(1) q assms(2)] Cons.prems(1) by simp
  have step: "increment counts (bin_index (Fin lo) (Fin w) bc (Fin q)) = counts[?j := counts ! ?j + 1]"
    using bin_index_Fin(1) [OF assms(1) q assms(2)] increment_in_range [OF j] by simp
  have len: "length (counts[?j := counts ! ?j + 1]) = bc" using Cons.prems(1) by simp
  have rest: "\<forall>q\<in>set qs. lo \<le> q \<and> (q - lo) / w \<le> of_nat bc" using Cons.prems(2) by simp
  show ?case
    using Cons.IH [OF len rest] sum_list_bump [OF j] by (simp add: step)
qed

text \<open>
  Where the values are finite and not all the same, the binning does what the
  specification says: there are \<open>binCount\<close> bins, their counts sum to the number of
  values, and the maximum goes to the last bin.
\<close>

lemma histogramCounts_spread:
  assumes "map (\<lambda>r. ToNumber rt (get_prop r col)) rows = map Fin qs"
      and "qs \<noteq> []"
      and "Min (set qs) < Max (set qs)"
  shows "\<exists>counts. histogramCounts rt rows col = Some counts
           \<and> length counts = binCount_of (length qs)
           \<and> sum_list counts = length qs
           \<and> bin_index (Fin (Min (set qs)))
                (Fin ((Max (set qs) - Min (set qs)) / of_nat (binCount_of (length qs))))
                (binCount_of (length qs)) (Fin (Max (set qs)))
              = Fin (of_nat (binCount_of (length qs)) - 1)"
proof -
  define bc where "bc = binCount_of (length qs)"
  define lo where "lo = Min (set qs)"
  define hi where "hi = Max (set qs)"
  define w where "w = (hi - lo) / of_nat bc"
  have bc: "0 < bc" unfolding bc_def by (rule binCount_of_pos)
  have lt: "lo < hi" using assms(3) by (simp add: lo_def hi_def)
  have w: "0 < w" using lt bc by (simp add: w_def)
  have top: "(hi - lo) / w = of_nat bc" using lt bc by (simp add: w_def)
  have vs: "filter (\<lambda>v. v \<noteq> NaN) (map (\<lambda>r. ToNumber rt (get_prop r col)) rows) = map Fin qs"
    unfolding assms(1) by (simp add: filter_id_conv)
  have size: "jdiv (jsub (Fin hi) (Fin lo)) (Fin (of_nat bc)) = Fin w"
    using bc by (simp add: jsub_def w_def)
  have h: "histogramCounts rt rows col =
      Some (fold (\<lambda>v counts. increment counts (bin_index (Fin lo) (Fin w) bc v))
              (map Fin qs) (replicate bc 0))"
    using assms(2) unfolding histogramCounts_def vs Let_def
    by (simp add: Math_min_Fin Math_max_Fin size [unfolded lo_def hi_def bc_def]
          lo_def hi_def bc_def)
  have range: "\<forall>q\<in>set qs. lo \<le> q \<and> (q - lo) / w \<le> of_nat bc"
  proof
    fix q assume q: "q \<in> set qs"
    then have 1: "lo \<le> q" and 2: "q \<le> hi" by (simp_all add: lo_def hi_def)
    have "(q - lo) / w \<le> (hi - lo) / w"
      using 2 w by (simp add: divide_right_mono)
    then show "lo \<le> q \<and> (q - lo) / w \<le> of_nat bc" using 1 top by simp
  qed
  have b: "bin_of lo w bc hi = bc - 1"
    unfolding bin_of_def top by simp
  have "bin_index (Fin lo) (Fin w) bc (Fin hi) = Fin (of_nat (bin_of lo w bc hi))"
    by (rule bin_index_Fin(1)) (use w lt top bc in simp_all)
  then have last: "bin_index (Fin lo) (Fin w) bc (Fin hi) = Fin (of_nat bc - 1)"
    using bc by (simp add: b of_nat_diff)
  have "length (replicate bc (0::nat)) = bc" by simp
  from fold_increment_sum [OF w bc this range]
  have "length (fold (\<lambda>v counts. increment counts (bin_index (Fin lo) (Fin w) bc v))
                  (map Fin qs) (replicate bc 0)) = bc
       \<and> sum_list (fold (\<lambda>v counts. increment counts (bin_index (Fin lo) (Fin w) bc v))
                  (map Fin qs) (replicate bc 0)) = length qs"
    by (simp add: sum_list_replicate)
  then show ?thesis
    using h last unfolding w_def lo_def hi_def bc_def by simp
qed

text \<open>
  Claim C3, at a column with the single value 5. The claim gives 5 bins whose counts
  sum to 1, with the value in the last bin. The code gives 5 bins that are all empty:
  minimum and maximum are equal, so the bin width is 0 and the index is NaN.
\<close>

theorem histogramCounts_single_value:
  "histogramCounts rt [[(''x'', JNum (Fin 5))]] ''x'' = Some [0, 0, 0, 0, 0]"
proof -
  have h1: "[[(''x'', JNum (Fin 5))]] \<noteq> ([] :: row list)" by simp
  have h2: "\<forall>r\<in>set [[(''x'', JNum (Fin 5))]]. ToNumber rt (get_prop r ''x'') = Fin 5"
    by (simp add: get_prop_def)
  show ?thesis
    using histogramCounts_constant_column [OF h1 h2]
    by (simp add: binCount_of_def eval_nat_numeral)
qed

end
